theory Spec2Isabelle
  imports Complex_Main "HOL-Library.Word" "HOL-Library.AList" "HOL-Library.Sublist"
begin

section \<open>Values, exceptions and the effect monad\<close>

text \<open>
  The notebook \<^verbatim>\<open>quantization_pruning.ipynb\<close> is a sequence of Python cells that call
  TensorFlow, NumPy and the operating system. Every call that can raise is modelled as a
  computation over a world \<open>'w\<close> that returns either an exception (\<open>Inl\<close>) or a value
  (\<open>Inr\<close>), together with the world it leaves behind.
\<close>

datatype exn =
    IndexError | KeyError | ValueError | FileNotFoundError | FileExistsError
  | OSError | RuntimeError

type_synonym byte = "8 word"

datatype pyfloat = NaN | Fl real

datatype pyval = PNone | PInt int | PFloat pyfloat

type_synonym ('w, 'a) M = "'w \<Rightarrow> (exn + 'a) \<times> 'w"

definition returnM :: "'a \<Rightarrow> ('w, 'a) M" where
  "returnM a = (\<lambda>w. (Inr a, w))"

definition raiseM :: "exn \<Rightarrow> ('w, 'a) M" where
  "raiseM e = (\<lambda>w. (Inl e, w))"

definition bindM :: "('w, 'a) M \<Rightarrow> ('a \<Rightarrow> ('w, 'b) M) \<Rightarrow> ('w, 'b) M" where
  "bindM m f = (\<lambda>w. case m w of (Inl e, w') \<Rightarrow> (Inl e, w') | (Inr a, w') \<Rightarrow> f a w')"

text \<open>A pure Python operation that may raise (indexing, a NumPy call) leaves the world alone.\<close>

definition liftE :: "exn + 'a \<Rightarrow> ('w, 'a) M" where
  "liftE r = (\<lambda>w. (r, w))"

text \<open>
  \<^verbatim>\<open>with enter as h: body\<close>. The context manager's exit runs whether the body returned
  or raised. Neither \<^verbatim>\<open>ZipFile.__exit__\<close> nor a file object's \<^verbatim>\<open>__exit__\<close> suppresses an
  exception (both return \<^verbatim>\<open>None\<close>), so the body's exception is raised again after the
  exit; an exception raised by the exit itself replaces it.
\<close>

definition with_stmt ::
  "('w, 'h) M \<Rightarrow> ('h \<Rightarrow> ('w, unit) M) \<Rightarrow> ('h \<Rightarrow> ('w, 'a) M) \<Rightarrow> ('w, 'a) M" where
  "with_stmt enter exit body = (\<lambda>w.
     case enter w of
       (Inl e, w1) \<Rightarrow> (Inl e, w1)
     | (Inr h, w1) \<Rightarrow>
         (case body h w1 of
            (Inl e, w2) \<Rightarrow>
              (case exit h w2 of (Inl e', w3) \<Rightarrow> (Inl e', w3) | (Inr _, w3) \<Rightarrow> (Inl e, w3))
          | (Inr a, w2) \<Rightarrow>
              (case exit h w2 of (Inl e', w3) \<Rightarrow> (Inl e', w3) | (Inr _, w3) \<Rightarrow> (Inr a, w3))))"

section \<open>The NumPy and Python operations the notebook uses\<close>

datatype dtype = UInt8 | Float32 | Float64 | Int64

text \<open>An array: its shape, its element type tag and its elements in row-major order.\<close>

record 'a ndarray =
  shape :: "nat list"
  dtype :: dtype
  data :: "'a list"




text \<open>\<^verbatim>\<open>np.argmax(a)\<close>: the index of the first maximal element of the flattened array;
  ValueError on an empty one.\<close>

fun argmax_from :: "real list \<Rightarrow> nat \<Rightarrow> real \<Rightarrow> nat \<Rightarrow> nat" where
  "argmax_from [] i best bi = bi"
| "argmax_from (x # xs) i best bi =
     (if best < x then argmax_from xs (Suc i) x i else argmax_from xs (Suc i) best bi)"

definition argmax :: "real ndarray \<Rightarrow> exn + nat" where
  "argmax a = (case data a of [] \<Rightarrow> Inl ValueError | x # xs \<Rightarrow> Inr (argmax_from xs 1 x 0))"





text \<open>\<^verbatim>\<open>str\<close> of an integer, in decimal.\<close>

definition digit_char :: "nat \<Rightarrow> char" where
  "digit_char n = ''0123456789'' ! n"

function str_nat :: "nat \<Rightarrow> string" where
  "str_nat n = (if n < 10 then [digit_char n] else str_nat (n div 10) @ [digit_char (n mod 10)])"
  by pat_completeness auto
termination
  by (relation "measure id") auto

declare str_nat.simps [simp del]

definition str_int :: "int \<Rightarrow> string" where
  "str_int i = (if i < 0 then CHR ''-'' # str_nat (nat (- i)) else str_nat (nat i))"

text \<open>
  What an f-string prints for a value. The shortest-round-trip text of a float is NumPy's
  and Python's business, so it is the parameter \<open>float_repr\<close>.
\<close>

definition py_str :: "(real \<Rightarrow> string) \<Rightarrow> pyval \<Rightarrow> string" where
  "py_str float_repr v =
     (case v of
        PNone \<Rightarrow> ''None''
      | PInt i \<Rightarrow> str_int i
      | PFloat NaN \<Rightarrow> ''nan''
      | PFloat (Fl x) \<Rightarrow> float_repr x)"

section \<open>The calls into the operating system and the framework\<close>

datatype compression = ZIP_STORED | ZIP_DEFLATED

datatype optimize = DEFAULT

datatype layer_spec =
    InputLayer "nat list"
  | Reshape "nat list"
  | Conv2D nat "nat \<times> nat" string
  | MaxPooling2D "nat \<times> nat"
  | Flatten
  | Dense nat string

record 'm converter =
  conv_model :: 'm
  optimizations :: "optimize list"

text \<open>
  The functions of the notebook are written against this interface: one field for each
  library call they make. \<open>'m\<close> is a Keras model, \<open>'l\<close> a layer object, \<open>'i\<close> a TF Lite
  interpreter, \<open>'z\<close> an open \<^verbatim>\<open>ZipFile\<close>, \<open>'f\<close> an open file object.
  \<open>ZipFile_w E p c\<close> stands for \<^verbatim>\<open>zipfile.ZipFile(p, 'w', compression=c)\<close>, \<open>open_wb E p\<close> for
  \<^verbatim>\<open>open(p, 'wb')\<close>, and \<open>tensor_read E i k\<close> for \<^verbatim>\<open>interpreter.tensor(k)()\<close>.
\<close>

record ('w, 'm, 'l, 'i, 'z, 'f) env =
  print :: "string \<Rightarrow> ('w, unit) M"
  mkstemp :: "string \<Rightarrow> ('w, nat \<times> string) M"
  ZipFile_w :: "string \<Rightarrow> compression \<Rightarrow> ('w, 'z) M"
  zip_write :: "'z \<Rightarrow> string \<Rightarrow> ('w, unit) M"
  zip_exit :: "'z \<Rightarrow> ('w, unit) M"
  getsize :: "string \<Rightarrow> ('w, nat) M"
  layer :: "layer_spec \<Rightarrow> ('w, 'l) M"
  Sequential :: "'l list \<Rightarrow> ('w, 'm) M"
  Interpreter :: "string \<Rightarrow> ('w, 'i) M"
  allocate_tensors :: "'i \<Rightarrow> ('w, unit) M"
  get_input_details :: "'i \<Rightarrow> ('w, (string \<times> nat) list list) M"
  get_output_details :: "'i \<Rightarrow> ('w, (string \<times> nat) list list) M"
  set_tensor :: "'i \<Rightarrow> nat \<Rightarrow> real ndarray \<Rightarrow> ('w, unit) M"
  invoke :: "'i \<Rightarrow> ('w, unit) M"
  tensor_read :: "'i \<Rightarrow> nat \<Rightarrow> ('w, real ndarray) M"
  from_keras_model :: "'m \<Rightarrow> ('w, 'm converter) M"
  convert :: "'m converter \<Rightarrow> ('w, byte list) M"
  open_wb :: "string \<Rightarrow> ('w, 'f) M"
  file_write :: "'f \<Rightarrow> byte list \<Rightarrow> ('w, unit) M"
  file_exit :: "'f \<Rightarrow> ('w, unit) M"
  float32 :: "real \<Rightarrow> real"
  float_repr :: "real \<Rightarrow> string"

section \<open>The functions of the notebook\<close>

text \<open>
  \<^verbatim>\<open>
  def print_metric(metric_dict, metric_name):
    for metric, value in metric_dict.items():
      print(f'{metric_name} for {metric}: {value}')
  \<close>
  A dict is an association list in insertion order; its keys here are strings.
\<close>

definition metric_line :: "(real \<Rightarrow> string) \<Rightarrow> string \<Rightarrow> string \<times> pyval \<Rightarrow> string" where
  "metric_line fr metric_name kv =
     metric_name @ '' for '' @ fst kv @ '': '' @ py_str fr (snd kv)"

fun print_metric ::
  "('w, 'm, 'l, 'i, 'z, 'f) env \<Rightarrow> (string \<times> pyval) list \<Rightarrow> string \<Rightarrow> ('w, pyval) M" where
  "print_metric E [] metric_name = returnM PNone"
| "print_metric E (kv # items) metric_name =
     bindM (print E (metric_line (float_repr E) metric_name kv))
       (\<lambda>_. print_metric E items metric_name)"

text \<open>
  \<^verbatim>\<open>
  def get_gzipped_model_size(file):
    _, zipped_file = tempfile.mkstemp('.zip')
    with zipfile.ZipFile(zipped_file, 'w', compression=zipfile.ZIP_DEFLATED) as f:
      f.write(file)
    return os.path.getsize(zipped_file)
  \<close>
\<close>

definition get_gzipped_model_size ::
  "('w, 'm, 'l, 'i, 'z, 'f) env \<Rightarrow> string \<Rightarrow> ('w, nat) M" where
  "get_gzipped_model_size E file =
     bindM (mkstemp E ''.zip'') (\<lambda>(_, zipped_file).
     bindM (with_stmt (ZipFile_w E zipped_file ZIP_DEFLATED) (zip_exit E)
              (\<lambda>f. zip_write E f file)) (\<lambda>_.
     getsize E zipped_file))"







section \<open>A model of the operating system and the framework\<close>

text \<open>
  The world the notebook runs in: a flat file system in creation order, the lines written
  by \<^verbatim>\<open>print\<close>, the open descriptors, the Python objects that hold state (\<^verbatim>\<open>ZipFile\<close>
  objects, file objects, interpreters and Keras models, each named by its position in its
  list) and the sequence of effects that have happened: \<open>EvSave m p\<close> when Keras model
  \<open>m\<close> is saved to file \<open>p\<close>, \<open>EvWrite p\<close> when other content is written to \<open>p\<close>,
  \<open>EvCreate\<close> and \<open>EvOpenW\<close> when a file is created or truncated, \<open>EvRead\<close> and \<open>EvGetsize\<close>
  when its content or size is read, \<open>EvConvert m os\<close> when model \<open>m\<close> is converted with the
  optimizations \<open>os\<close>, \<open>EvDerive m n\<close> when model \<open>n\<close> is made from model \<open>m\<close>.
\<close>

record zip_obj =
  zpath :: string
  zcomp :: compression
  members :: "(string \<times> byte list) list"
  zopen :: bool

record file_obj =
  fpath :: string
  fopen :: bool

record interp =
  model_bytes :: "byte list"
  allocated :: bool
  tensors :: "(nat \<times> real ndarray) list"

datatype event =
    EvLoadData
  | EvCreate string
  | EvOpenW string
  | EvWrite string
  | EvSave nat string
  | EvRead string
  | EvGetsize string
  | EvBuild nat
  | EvSummary nat
  | EvCompile nat
  | EvFit nat
  | EvEvaluate nat
  | EvConvert nat "optimize list"
  | EvDerive nat nat

record 'mv world =
  fs :: "(string \<times> byte list) list"
  console :: "string list"
  fds :: "string list"
  zipfiles :: "zip_obj list"
  fileobjs :: "file_obj list"
  interps :: "interp list"
  kmodels :: "'mv list"
  trace :: "event list"

record compile_args =
  optimizer :: string
  loss :: string
  metrics :: "string list"

datatype callback = UpdatePruningStep

record fit_args =
  epochs :: nat
  shuffle :: bool
  validation_split :: real
  callbacks :: "callback list"

datatype pruning_schedule = PolynomialDecay real real nat nat

text \<open>
  What the libraries compute is not in the repository: it is the parameter \<open>F\<close>. A Keras
  model is a value of type \<open>'mv\<close>; a TF Lite model is the content of its file.
\<close>

record 'mv framework =
  tmp_dir :: string
  tmp_candidates :: "string list"
  zip_encode :: "compression \<Rightarrow> (string \<times> byte list) list \<Rightarrow> byte list"
  mnist_load :: "exn + (byte ndarray list \<times> int list) \<times> (byte ndarray list \<times> int list)"
  tfl_valid :: "byte list \<Rightarrow> bool"
  tfl_inputs :: "byte list \<Rightarrow> nat list"
  tfl_outputs :: "byte list \<Rightarrow> nat list"
  tfl_accepts :: "byte list \<Rightarrow> nat \<Rightarrow> real ndarray \<Rightarrow> bool"
  tfl_infer :: "byte list \<Rightarrow> real ndarray list \<Rightarrow> exn + real ndarray list"
  f32 :: "real \<Rightarrow> real"
  f64 :: "real \<Rightarrow> real"
  frepr :: "real \<Rightarrow> string"
  k_sequential :: "layer_spec list \<Rightarrow> exn + 'mv"
  k_convert :: "'mv converter \<Rightarrow> exn + byte list"
  k_weights :: "'mv \<Rightarrow> byte list"
  k_load_weights :: "'mv \<Rightarrow> byte list \<Rightarrow> exn + 'mv"
  k_compile :: "'mv \<Rightarrow> compile_args \<Rightarrow> 'mv"
  k_fit :: "'mv \<Rightarrow> real ndarray list \<Rightarrow> int list \<Rightarrow> fit_args \<Rightarrow> exn + 'mv"
  k_evaluate :: "'mv \<Rightarrow> real ndarray list \<Rightarrow> int list \<Rightarrow> exn + real \<times> real"
  k_save :: "'mv \<Rightarrow> bool \<Rightarrow> byte list"
  k_quantize_model :: "'mv \<Rightarrow> exn + 'mv"
  k_prune_low_magnitude :: "'mv \<Rightarrow> pruning_schedule \<Rightarrow> exn + 'mv"
  k_strip_pruning :: "'mv \<Rightarrow> 'mv"

subsection \<open>Console and files\<close>

definition os_print :: "string \<Rightarrow> (('mv, 'x) world_scheme, unit) M" where
  "os_print s = (\<lambda>w. (Inr (), w\<lparr>console := console w @ [s]\<rparr>))"

text \<open>
  \<^verbatim>\<open>tempfile.mkstemp(suffix)\<close> tries the names of its generator until one does not exist,
  creates that file empty and returns an open descriptor with the path; it raises
  FileExistsError when every name is taken. The descriptor stays open.
\<close>

definition os_mkstemp ::
  "'mv framework \<Rightarrow> string \<Rightarrow> (('mv, 'x) world_scheme, nat \<times> string) M" where
  "os_mkstemp F sfx = (\<lambda>w.
     case find (\<lambda>p. map_of (fs w) p = None)
            (map (\<lambda>c. tmp_dir F @ c @ sfx) (tmp_candidates F)) of
       None \<Rightarrow> (Inl FileExistsError, w)
     | Some p \<Rightarrow>
         (Inr (3 + length (fds w), p),
          w\<lparr>fs := AList.update p [] (fs w), fds := fds w @ [p],
            trace := trace w @ [EvCreate p]\<rparr>))"

definition zip_open_w ::
  "string \<Rightarrow> compression \<Rightarrow> (('mv, 'x) world_scheme, nat) M" where
  "zip_open_w p c = (\<lambda>w.
     (Inr (length (zipfiles w)),
      w\<lparr>fs := AList.update p [] (fs w),
        zipfiles := zipfiles w @ [\<lparr>zpath = p, zcomp = c, members = [], zopen = True\<rparr>],
        trace := trace w @ [EvOpenW p]\<rparr>))"

definition zip_add :: "nat \<Rightarrow> string \<Rightarrow> (('mv, 'x) world_scheme, unit) M" where
  "zip_add z file = (\<lambda>w.
     if z < length (zipfiles w) \<and> zopen (zipfiles w ! z) then
       (case map_of (fs w) file of
          None \<Rightarrow> (Inl FileNotFoundError, w)
        | Some bs \<Rightarrow>
            (Inr (),
             w\<lparr>zipfiles := (zipfiles w)
                  [z := (zipfiles w ! z)\<lparr>members := members (zipfiles w ! z) @ [(file, bs)]\<rparr>],
               trace := trace w @ [EvRead file]\<rparr>))
     else (Inl ValueError, w))"

definition zip_close :: "'mv framework \<Rightarrow> nat \<Rightarrow> (('mv, 'x) world_scheme, unit) M" where
  "zip_close F z = (\<lambda>w.
     if z < length (zipfiles w) then
       (if zopen (zipfiles w ! z) then
          (Inr (),
           w\<lparr>fs := AList.update (zpath (zipfiles w ! z))
                   (zip_encode F (zcomp (zipfiles w ! z)) (members (zipfiles w ! z))) (fs w),
             zipfiles := (zipfiles w)[z := (zipfiles w ! z)\<lparr>zopen := False\<rparr>],
             trace := trace w @ [EvWrite (zpath (zipfiles w ! z))]\<rparr>)
        else (Inr (), w))
     else (Inl ValueError, w))"

definition os_getsize :: "string \<Rightarrow> (('mv, 'x) world_scheme, nat) M" where
  "os_getsize p = (\<lambda>w.
     case map_of (fs w) p of
       None \<Rightarrow> (Inl FileNotFoundError, w)
     | Some bs \<Rightarrow> (Inr (length bs), w\<lparr>trace := trace w @ [EvGetsize p]\<rparr>))"

definition os_open_wb :: "string \<Rightarrow> (('mv, 'x) world_scheme, nat) M" where
  "os_open_wb p = (\<lambda>w.
     (Inr (length (fileobjs w)),
      w\<lparr>fs := AList.update p [] (fs w),
        fileobjs := fileobjs w @ [\<lparr>fpath = p, fopen = True\<rparr>],
        trace := trace w @ [EvOpenW p]\<rparr>))"

definition os_file_write :: "nat \<Rightarrow> byte list \<Rightarrow> (('mv, 'x) world_scheme, unit) M" where
  "os_file_write f bs = (\<lambda>w.
     if f < length (fileobjs w) \<and> fopen (fileobjs w ! f) then
       (Inr (),
        w\<lparr>fs := AList.update (fpath (fileobjs w ! f))
                ((case map_of (fs w) (fpath (fileobjs w ! f)) of None \<Rightarrow> [] | Some old \<Rightarrow> old) @ bs)
                (fs w),
          trace := trace w @ [EvWrite (fpath (fileobjs w ! f))]\<rparr>)
     else (Inl ValueError, w))"

definition os_file_close :: "nat \<Rightarrow> (('mv, 'x) world_scheme, unit) M" where
  "os_file_close f = (\<lambda>w.
     if f < length (fileobjs w) then
       (Inr (), w\<lparr>fileobjs := (fileobjs w)[f := (fileobjs w ! f)\<lparr>fopen := False\<rparr>]\<rparr>)
     else (Inl ValueError, w))"

subsection \<open>Keras models and the converter\<close>

definition k_layer :: "layer_spec \<Rightarrow> (('mv, 'x) world_scheme, layer_spec) M" where
  "k_layer s = returnM s"

definition k_Sequential ::
  "'mv framework \<Rightarrow> layer_spec list \<Rightarrow> (('mv, 'x) world_scheme, nat) M" where
  "k_Sequential F ls = (\<lambda>w.
     case k_sequential F ls of
       Inl e \<Rightarrow> (Inl e, w)
     | Inr mv \<Rightarrow>
         (Inr (length (kmodels w)),
          w\<lparr>kmodels := kmodels w @ [mv], trace := trace w @ [EvBuild (length (kmodels w))]\<rparr>))"

text \<open>A fresh converter has no optimizations set.\<close>

definition k_from_keras_model :: "nat \<Rightarrow> (('mv, 'x) world_scheme, nat converter) M" where
  "k_from_keras_model m = (\<lambda>w.
     if m < length (kmodels w) then (Inr \<lparr>conv_model = m, optimizations = []\<rparr>, w)
     else (Inl ValueError, w))"

definition k_converter_convert ::
  "'mv framework \<Rightarrow> nat converter \<Rightarrow> (('mv, 'x) world_scheme, byte list) M" where
  "k_converter_convert F c = (\<lambda>w.
     if conv_model c < length (kmodels w) then
       (case k_convert F \<lparr>conv_model = kmodels w ! conv_model c,
                          optimizations = optimizations c\<rparr> of
          Inl e \<Rightarrow> (Inl e, w)
        | Inr bs \<Rightarrow>
            (Inr bs, w\<lparr>trace := trace w @ [EvConvert (conv_model c) (optimizations c)]\<rparr>))
     else (Inl ValueError, w))"

subsection \<open>The TF Lite interpreter\<close>

definition tfl_Interpreter ::
  "'mv framework \<Rightarrow> string \<Rightarrow> (('mv, 'x) world_scheme, nat) M" where
  "tfl_Interpreter F path = (\<lambda>w.
     case map_of (fs w) path of
       None \<Rightarrow> (Inl ValueError, w)
     | Some bs \<Rightarrow>
         if tfl_valid F bs then
           (Inr (length (interps w)),
            w\<lparr>interps := interps w @ [\<lparr>model_bytes = bs, allocated = False, tensors = []\<rparr>],
              trace := trace w @ [EvRead path]\<rparr>)
         else (Inl ValueError, w))"

definition tfl_allocate_tensors :: "nat \<Rightarrow> (('mv, 'x) world_scheme, unit) M" where
  "tfl_allocate_tensors i = (\<lambda>w.
     if i < length (interps w) then
       (Inr (), w\<lparr>interps := (interps w)[i := (interps w ! i)\<lparr>allocated := True\<rparr>]\<rparr>)
     else (Inl RuntimeError, w))"

definition tfl_details ::
  "(byte list \<Rightarrow> nat list) \<Rightarrow> nat \<Rightarrow> (('mv, 'x) world_scheme, (string \<times> nat) list list) M" where
  "tfl_details which i = (\<lambda>w.
     if i < length (interps w) then
       (Inr (map (\<lambda>k. [(''index'', k)]) (which (model_bytes (interps w ! i)))), w)
     else (Inl RuntimeError, w))"

definition tfl_set_tensor ::
  "'mv framework \<Rightarrow> nat \<Rightarrow> nat \<Rightarrow> real ndarray \<Rightarrow> (('mv, 'x) world_scheme, unit) M" where
  "tfl_set_tensor F i k t = (\<lambda>w.
     if i < length (interps w) \<and> allocated (interps w ! i) then
       (if tfl_accepts F (model_bytes (interps w ! i)) k t then
          (Inr (),
           w\<lparr>interps := (interps w)
                [i := (interps w ! i)\<lparr>tensors := AList.update k t (tensors (interps w ! i))\<rparr>]\<rparr>)
        else (Inl ValueError, w))
     else (Inl RuntimeError, w))"

text \<open>
  \<^verbatim>\<open>invoke\<close> reads the input tensors, runs the model of the file and stores the output
  tensors.
\<close>

definition tfl_invoke :: "'mv framework \<Rightarrow> nat \<Rightarrow> (('mv, 'x) world_scheme, unit) M" where
  "tfl_invoke F i = (\<lambda>w.
     if i < length (interps w) \<and> allocated (interps w ! i) then
       (let it = interps w ! i;
            ins = map (map_of (tensors it)) (tfl_inputs F (model_bytes it))
        in if None \<in> set ins then (Inl RuntimeError, w)
           else
             (case tfl_infer F (model_bytes it) (map the ins) of
                Inl e \<Rightarrow> (Inl e, w)
              | Inr outs \<Rightarrow>
                  (Inr (),
                   w\<lparr>interps := (interps w)
                        [i := it\<lparr>tensors :=
                                 AList.updates (tfl_outputs F (model_bytes it)) outs (tensors it)\<rparr>]\<rparr>)))
     else (Inl RuntimeError, w))"

definition tfl_tensor :: "nat \<Rightarrow> nat \<Rightarrow> (('mv, 'x) world_scheme, real ndarray) M" where
  "tfl_tensor i k = (\<lambda>w.
     if i < length (interps w) then
       (case map_of (tensors (interps w ! i)) k of
          None \<Rightarrow> (Inl ValueError, w)
        | Some t \<Rightarrow> (Inr t, w))
     else (Inl RuntimeError, w))"

text \<open>The interface, filled in with this model.\<close>

definition std ::
  "'mv framework \<Rightarrow> (('mv, 'x) world_scheme, nat, layer_spec, nat, nat, nat) env" where
  "std F =
     \<lparr>print = os_print,
      mkstemp = os_mkstemp F,
      ZipFile_w = zip_open_w,
      zip_write = zip_add,
      zip_exit = zip_close F,
      getsize = os_getsize,
      layer = k_layer,
      Sequential = k_Sequential F,
      Interpreter = tfl_Interpreter F,
      allocate_tensors = tfl_allocate_tensors,
      get_input_details = tfl_details (tfl_inputs F),
      get_output_details = tfl_details (tfl_outputs F),
      set_tensor = tfl_set_tensor F,
      invoke = tfl_invoke F,
      tensor_read = tfl_tensor,
      from_keras_model = k_from_keras_model,
      convert = k_converter_convert F,
      open_wb = os_open_wb,
      file_write = os_file_write,
      file_exit = os_file_close,
      float32 = f32 F,
      float_repr = frepr F\<rparr>"

subsection \<open>The Keras calls of the cells\<close>

definition load_data ::
  "'mv framework \<Rightarrow>
   (('mv, 'x) world_scheme, (byte ndarray list \<times> int list) \<times> (byte ndarray list \<times> int list)) M" where
  "load_data F = (\<lambda>w.
     case mnist_load F of
       Inl e \<Rightarrow> (Inl e, w)
     | Inr d \<Rightarrow> (Inr d, w\<lparr>trace := trace w @ [EvLoadData]\<rparr>))"












section \<open>The cells of the notebook\<close>

text \<open>
  The state of the notebook is the world together with the global variables that are
  assigned more than once or only read by a claim: the two tables and the variable that
  receives the result of \<^verbatim>\<open>convert_tflite\<close>. The variables assigned once are bound where
  their cell computes them and passed to the cells that read them.
\<close>

record 'mv nb = "'mv world" +
  MODEL_SIZE :: "(string \<times> pyval) list"
  ACCURACY :: "(string \<times> pyval) list"
  pruned_quantized_tflite :: "pyval option"

record dataset =
  train_images :: "real ndarray list"
  train_labels :: "int list"
  test_images :: "real ndarray list"
  test_labels :: "int list"










text \<open>\<^verbatim>\<open>MODEL_SIZE = {}\<close>, \<^verbatim>\<open>MODEL_SIZE[k] = v\<close> and \<^verbatim>\<open>print_metric(MODEL_SIZE, name)\<close>; the
  same for \<^verbatim>\<open>ACCURACY\<close>. Assigning to a key that is present replaces its value in place, a
  new key goes to the end.\<close>

definition new_MODEL_SIZE :: "(('mv, 'x) nb_scheme, unit) M" where
  "new_MODEL_SIZE = (\<lambda>w. (Inr (), w\<lparr>MODEL_SIZE := []\<rparr>))"

definition new_ACCURACY :: "(('mv, 'x) nb_scheme, unit) M" where
  "new_ACCURACY = (\<lambda>w. (Inr (), w\<lparr>ACCURACY := []\<rparr>))"

definition setitem_MODEL_SIZE :: "string \<Rightarrow> pyval \<Rightarrow> (('mv, 'x) nb_scheme, unit) M" where
  "setitem_MODEL_SIZE k v = (\<lambda>w. (Inr (), w\<lparr>MODEL_SIZE := AList.update k v (MODEL_SIZE w)\<rparr>))"

definition setitem_ACCURACY :: "string \<Rightarrow> pyval \<Rightarrow> (('mv, 'x) nb_scheme, unit) M" where
  "setitem_ACCURACY k v = (\<lambda>w. (Inr (), w\<lparr>ACCURACY := AList.update k v (ACCURACY w)\<rparr>))"

definition print_MODEL_SIZE :: "'mv framework \<Rightarrow> string \<Rightarrow> (('mv, 'x) nb_scheme, pyval) M" where
  "print_MODEL_SIZE F metric_name = (\<lambda>w. print_metric (std F) (MODEL_SIZE w) metric_name w)"

definition print_ACCURACY :: "'mv framework \<Rightarrow> string \<Rightarrow> (('mv, 'x) nb_scheme, pyval) M" where
  "print_ACCURACY F metric_name = (\<lambda>w. print_metric (std F) (ACCURACY w) metric_name w)"


text \<open>
  Cell 4:
  \<^verbatim>\<open>
  (train_images, train_labels), (test_images, test_labels) = mnist.load_data()
  train_images = train_images / 255.0
  test_images = test_images / 255.0
  \<close>
  Dividing an array of 8-bit pixels by a float gives a float64 array; \<open>rnd\<close> is the
  rounding of the quotient to float64.
\<close>

definition true_divide :: "(real \<Rightarrow> real) \<Rightarrow> byte ndarray \<Rightarrow> real \<Rightarrow> real ndarray" where
  "true_divide rnd a c =
     \<lparr>shape = shape a, dtype = Float64, data = map (\<lambda>p. rnd (real (unat p) / c)) (data a)\<rparr>"

definition normalize :: "(real \<Rightarrow> real) \<Rightarrow> byte ndarray list \<Rightarrow> real ndarray list" where
  "normalize rnd images = map (\<lambda>a. true_divide rnd a 255) images"

definition cell_4 :: "'mv framework \<Rightarrow> (('mv, 'x) nb_scheme, dataset) M" where
  "cell_4 F =
     bindM (load_data F) (\<lambda>((train_images0, train_labels0), (test_images0, test_labels0)).
     returnM \<lparr>train_images = normalize (f64 F) train_images0, train_labels = train_labels0,
              test_images = normalize (f64 F) test_images0, test_labels = test_labels0\<rparr>)"




















subsection \<open>The stages, in the order of the notebook's headings\<close>







text \<open>
  A fresh kernel started in a directory with the files \<open>fs0\<close>. No variable is bound yet:
  the tables, which cell 2 binds to \<^verbatim>\<open>{}\<close>, start empty here, and
  \<open>pruned_quantized_tflite\<close> is \<open>None\<close> until cell 35 assigns it.
\<close>

definition fresh :: "(string \<times> byte list) list \<Rightarrow> 'mv nb" where
  "fresh fs0 =
     \<lparr>fs = fs0, console = [], fds = [], zipfiles = [], fileobjs = [], interps = [],
      kmodels = [], trace = [], MODEL_SIZE = [], ACCURACY = [],
      pruned_quantized_tflite = None\<rparr>"

section \<open>Recording the library calls of a run\<close>

text \<open>
  To say what a function does when a library call raises, every call of the interface is
  wrapped so that it appends its outcome to a log carried beside the world: the name of the
  call, and the exception if it raised.
\<close>

datatype call = Returned string | Raised string exn

fun raises :: "call list \<Rightarrow> exn list" where
  "raises [] = []"
| "raises (Returned n # cs) = raises cs"
| "raises (Raised n e # cs) = e # raises cs"


fun call_name :: "call \<Rightarrow> string" where
  "call_name (Returned n) = n"
| "call_name (Raised n e) = n"

definition logged :: "string \<Rightarrow> ('w, 'a) M \<Rightarrow> ('w \<times> call list, 'a) M" where
  "logged n m = (\<lambda>(w, l).
     case m w of
       (Inl e, w') \<Rightarrow> (Inl e, (w', l @ [Raised n e]))
     | (Inr a, w') \<Rightarrow> (Inr a, (w', l @ [Returned n])))"

definition instrument ::
  "('w, 'm, 'l, 'i, 'z, 'f) env \<Rightarrow> ('w \<times> call list, 'm, 'l, 'i, 'z, 'f) env" where
  "instrument E =
     \<lparr>print = (\<lambda>s. logged ''print'' (print E s)),
      mkstemp = (\<lambda>s. logged ''mkstemp'' (mkstemp E s)),
      ZipFile_w = (\<lambda>p c. logged ''ZipFile'' (ZipFile_w E p c)),
      zip_write = (\<lambda>z p. logged ''ZipFile.write'' (zip_write E z p)),
      zip_exit = (\<lambda>z. logged ''ZipFile.__exit__'' (zip_exit E z)),
      getsize = (\<lambda>p. logged ''getsize'' (getsize E p)),
      layer = (\<lambda>s. logged ''layer'' (layer E s)),
      Sequential = (\<lambda>ls. logged ''Sequential'' (Sequential E ls)),
      Interpreter = (\<lambda>p. logged ''Interpreter'' (Interpreter E p)),
      allocate_tensors = (\<lambda>i. logged ''allocate_tensors'' (allocate_tensors E i)),
      get_input_details = (\<lambda>i. logged ''get_input_details'' (get_input_details E i)),
      get_output_details = (\<lambda>i. logged ''get_output_details'' (get_output_details E i)),
      set_tensor = (\<lambda>i k t. logged ''set_tensor'' (set_tensor E i k t)),
      invoke = (\<lambda>i. logged ''invoke'' (invoke E i)),
      tensor_read = (\<lambda>i k. logged ''tensor'' (tensor_read E i k)),
      from_keras_model = (\<lambda>m. logged ''from_keras_model'' (from_keras_model E m)),
      convert = (\<lambda>c. logged ''convert'' (convert E c)),
      open_wb = (\<lambda>p. logged ''open'' (open_wb E p)),
      file_write = (\<lambda>f bs. logged ''file.write'' (file_write E f bs)),
      file_exit = (\<lambda>f. logged ''file.__exit__'' (file_exit E f)),
      float32 = float32 E,
      float_repr = float_repr E\<rparr>"

section \<open>A small framework to run the notebook on\<close>

text \<open>
  A Keras model is the number of times it was trained; a converted model is three bytes,
  two when quantized; the interpreter answers every image with the scores \<open>[1/4, 3/4]\<close>.
\<close>

definition demo_image :: "byte ndarray" where
  "demo_image = \<lparr>shape = [1, 2], dtype = UInt8, data = [0, 255]\<rparr>"

definition demo :: "nat framework" where
  "demo =
     \<lparr>tmp_dir = ''/tmp/'',
      tmp_candidates = [''a'', ''b'', ''c''],
      zip_encode = (\<lambda>c ms. concat (map snd ms)),
      mnist_load = Inr (([demo_image], [1]), ([demo_image, demo_image], [1, 0])),
      tfl_valid = (\<lambda>bs. True),
      tfl_inputs = (\<lambda>bs. [0]),
      tfl_outputs = (\<lambda>bs. [1]),
      tfl_accepts = (\<lambda>bs k t. dtype t = Float32),
      tfl_infer = (\<lambda>bs ins. Inr [\<lparr>shape = [1, 2], dtype = Float32, data = [1 / 4, 3 / 4]\<rparr>]),
      f32 = (\<lambda>x. x),
      f64 = (\<lambda>x. x),
      frepr = (\<lambda>x. ''0.5''),
      k_sequential = (\<lambda>ls. Inr 0),
      k_convert = (\<lambda>c. Inr (if optimizations c = [] then [1, 2, 3] else [1, 2])),
      k_weights = (\<lambda>m. [7]),
      k_load_weights = (\<lambda>m bs. Inr m),
      k_compile = (\<lambda>m a. m),
      k_fit = (\<lambda>m x y a. Inr (Suc m)),
      k_evaluate = (\<lambda>m x y. Inr (0, 1 / 2)),
      k_save = (\<lambda>m b. [7, 7, 7, 7]),
      k_quantize_model = (\<lambda>m. Inr m),
      k_prune_low_magnitude = (\<lambda>m s. Inr m),
      k_strip_pruning = (\<lambda>m. m)\<rparr>"

text \<open>An interface whose archive calls fail: no file to add, and no room to close.\<close>

definition failing :: "(unit, nat, nat, nat, nat, nat) env" where
  "failing =
     \<lparr>print = (\<lambda>s. returnM ()),
      mkstemp = (\<lambda>s. returnM (3, ''/tmp/a.zip'')),
      ZipFile_w = (\<lambda>p c. returnM 0),
      zip_write = (\<lambda>z p. raiseM FileNotFoundError),
      zip_exit = (\<lambda>z. raiseM OSError),
      getsize = (\<lambda>p. returnM 0),
      layer = (\<lambda>s. returnM 0),
      Sequential = (\<lambda>ls. raiseM ValueError),
      Interpreter = (\<lambda>p. returnM 0),
      allocate_tensors = (\<lambda>i. returnM ()),
      get_input_details = (\<lambda>i. returnM [[(''index'', 0)]]),
      get_output_details = (\<lambda>i. returnM [[(''index'', 1)]]),
      set_tensor = (\<lambda>i k t. returnM ()),
      invoke = (\<lambda>i. raiseM RuntimeError),
      tensor_read = (\<lambda>i k. raiseM ValueError),
      from_keras_model = (\<lambda>m. returnM \<lparr>conv_model = m, optimizations = []\<rparr>),
      convert = (\<lambda>c. raiseM RuntimeError),
      open_wb = (\<lambda>p. returnM 0),
      file_write = (\<lambda>f bs. returnM ()),
      file_exit = (\<lambda>f. returnM ()),
      float32 = (\<lambda>x. x),
      float_repr = (\<lambda>x. ''0.5'')\<rparr>"

text \<open>The data set that cell 4 makes of the one the small framework loads.\<close>

definition demo_pixels :: "real ndarray" where
  "demo_pixels = \<lparr>shape = [1, 2], dtype = Float64, data = [0, 1]\<rparr>"

definition demo_ds :: dataset where
  "demo_ds =
     \<lparr>train_images = [demo_pixels], train_labels = [1],
      test_images = [demo_pixels, demo_pixels], test_labels = [1, 0]\<rparr>"

section \<open>Notions used to state the properties\<close>








section \<open>The order of the effects of a run\<close>












section \<open>The files and the tables of a run\<close>


text \<open>The lines \<open>print_metric\<close> prints for a table.\<close>

definition metric_lines :: "'mv framework \<Rightarrow> string \<Rightarrow> (string \<times> pyval) list \<Rightarrow> string list" where
  "metric_lines F metric_name d = map (metric_line (frepr F) metric_name) d"


text \<open>\<open>new\<close> is \<open>old\<close> after an assignment to the key \<open>k\<close>.\<close>

definition assigned :: "'k \<Rightarrow> ('k \<times> 'v) list \<Rightarrow> ('k \<times> 'v) list \<Rightarrow> bool" where
  "assigned k old new = (\<exists>v. new = AList.update k v old)"

section \<open>Laws of the effect monad\<close>

lemma bindM_Inr: "m w = (Inr a, w') \<Longrightarrow> bindM m f w = f a w'"
  by (simp add: bindM_def)

lemma bindM_Inl: "m w = (Inl e, w') \<Longrightarrow> bindM m f w = (Inl e, w')"
  by (simp add: bindM_def)

lemma bindM_returnM [simp]: "bindM (returnM a) f = f a"
  by (simp add: bindM_def returnM_def)

lemma returnM_apply [simp]: "returnM a w = (Inr a, w)"
  by (simp add: returnM_def)

lemma liftE_apply [simp]: "liftE r w = (r, w)"
  by (simp add: liftE_def)

section \<open>The functions of the notebook in the modelled world\<close>

lemma std_simps [simp]:
  "print (std F) = os_print"
  "mkstemp (std F) = os_mkstemp F"
  "ZipFile_w (std F) = zip_open_w"
  "zip_write (std F) = zip_add"
  "zip_exit (std F) = zip_close F"
  "getsize (std F) = os_getsize"
  "layer (std F) = k_layer"
  "Sequential (std F) = k_Sequential F"
  "Interpreter (std F) = tfl_Interpreter F"
  "allocate_tensors (std F) = tfl_allocate_tensors"
  "get_input_details (std F) = tfl_details (tfl_inputs F)"
  "get_output_details (std F) = tfl_details (tfl_outputs F)"
  "set_tensor (std F) = tfl_set_tensor F"
  "invoke (std F) = tfl_invoke F"
  "tensor_read (std F) = tfl_tensor"
  "from_keras_model (std F) = k_from_keras_model"
  "convert (std F) = k_converter_convert F"
  "open_wb (std F) = os_open_wb"
  "file_write (std F) = os_file_write"
  "file_exit (std F) = os_file_close"
  "float32 (std F) = f32 F"
  "float_repr (std F) = frepr F"
  by (simp_all add: std_def)













lemma update_fresh: "map_of al k = None \<Longrightarrow> AList.update k v al = al @ [(k, v)]"
  by (induction al) (auto split: if_splits)

lemma find_Some_fresh:
  "find P xs = Some p \<Longrightarrow> P p \<and> p \<in> set xs"
  by (induction xs) (auto split: if_splits)


lemma get_gzipped_model_size_std:
  "get_gzipped_model_size (std F) file w =
     (case find (\<lambda>p. map_of (fs w) p = None)
             (map (\<lambda>c. tmp_dir F @ c @ ''.zip'') (tmp_candidates F)) of
        None \<Rightarrow> (Inl FileExistsError, w)
      | Some p \<Rightarrow>
          (case map_of (AList.update p [] (fs w)) file of
             None \<Rightarrow>
               (Inl FileNotFoundError,
                w\<lparr>fs := AList.update p (zip_encode F ZIP_DEFLATED []) (fs w),
                  fds := fds w @ [p],
                  zipfiles := zipfiles w @
                    [\<lparr>zpath = p, zcomp = ZIP_DEFLATED, members = [], zopen = False\<rparr>],
                  trace := trace w @ [EvCreate p, EvOpenW p, EvWrite p]\<rparr>)
           | Some bs \<Rightarrow>
               (Inr (length (zip_encode F ZIP_DEFLATED [(file, bs)])),
                w\<lparr>fs := AList.update p (zip_encode F ZIP_DEFLATED [(file, bs)]) (fs w),
                  fds := fds w @ [p],
                  zipfiles := zipfiles w @
                    [\<lparr>zpath = p, zcomp = ZIP_DEFLATED, members = [(file, bs)], zopen = False\<rparr>],
                  trace := trace w @ [EvCreate p, EvOpenW p, EvRead file, EvWrite p, EvGetsize p]\<rparr>)))"
  by (simp add: get_gzipped_model_size_def std_def bindM_def with_stmt_def os_mkstemp_def
      zip_open_w_def zip_add_def zip_close_def os_getsize_def update_conv' nth_append
      split: option.splits)

lemma print_metric_std:
  "print_metric (std F) metric_dict metric_name w =
     (Inr PNone,
      w\<lparr>console := console w @
           map (\<lambda>(k, v). metric_name @ '' for '' @ k @ '': '' @ py_str (frepr F) v)
             metric_dict\<rparr>)"
  by (induction metric_dict arbitrary: w)
     (simp_all add: os_print_def bindM_def metric_line_def split_beta)

text \<open>\<open>argmax\<close> returns the first index at which the largest element stands.\<close>

lemma argmax_from_first_max:
  assumes "bi < length ps" "best = ps ! bi" "\<forall>j<length ps. ps ! j \<le> best"
    and "\<forall>j<bi. ps ! j < best"
  shows "argmax_from xs (length ps) best bi < length (ps @ xs) \<and>
     (\<forall>j<length (ps @ xs). (ps @ xs) ! j \<le> (ps @ xs) ! argmax_from xs (length ps) best bi) \<and>
     (\<forall>j<argmax_from xs (length ps) best bi.
        (ps @ xs) ! j < (ps @ xs) ! argmax_from xs (length ps) best bi)"
  using assms
proof (induction xs arbitrary: ps best bi)
  case Nil
  then show ?case by simp
next
  case (Cons x xs)
  show ?case
  proof (cases "best < x")
    case True
    have "argmax_from xs (length (ps @ [x])) x (length ps) < length ((ps @ [x]) @ xs) \<and>
     (\<forall>j<length ((ps @ [x]) @ xs). ((ps @ [x]) @ xs) ! j \<le>
        ((ps @ [x]) @ xs) ! argmax_from xs (length (ps @ [x])) x (length ps)) \<and>
     (\<forall>j<argmax_from xs (length (ps @ [x])) x (length ps).
        ((ps @ [x]) @ xs) ! j < ((ps @ [x]) @ xs) ! argmax_from xs (length (ps @ [x])) x (length ps))"
    proof (rule Cons.IH)
      show "length ps < length (ps @ [x])" by simp
      show "x = (ps @ [x]) ! length ps" by simp
      show "\<forall>j<length (ps @ [x]). (ps @ [x]) ! j \<le> x"
        using Cons.prems(3) True by (auto simp: nth_append less_Suc_eq)
      show "\<forall>j<length ps. (ps @ [x]) ! j < x"
        using Cons.prems(3) True by (auto simp: nth_append)
    qed
    with True show ?thesis by simp
  next
    case False
    have "argmax_from xs (length (ps @ [x])) best bi < length ((ps @ [x]) @ xs) \<and>
     (\<forall>j<length ((ps @ [x]) @ xs). ((ps @ [x]) @ xs) ! j \<le>
        ((ps @ [x]) @ xs) ! argmax_from xs (length (ps @ [x])) best bi) \<and>
     (\<forall>j<argmax_from xs (length (ps @ [x])) best bi.
        ((ps @ [x]) @ xs) ! j < ((ps @ [x]) @ xs) ! argmax_from xs (length (ps @ [x])) best bi)"
    proof (rule Cons.IH)
      show "bi < length (ps @ [x])" using Cons.prems(1) by simp
      show "best = (ps @ [x]) ! bi" using Cons.prems(1,2) by (simp add: nth_append)
      show "\<forall>j<length (ps @ [x]). (ps @ [x]) ! j \<le> best"
        using Cons.prems(3) False by (auto simp: nth_append less_Suc_eq)
      show "\<forall>j<bi. (ps @ [x]) ! j < best"
        using Cons.prems(1,4) by (auto simp: nth_append)
    qed
    with False show ?thesis by simp
  qed
qed

lemma argmax_first_max:
  assumes "argmax a = Inr d"
  shows "d < length (data a) \<and> (\<forall>j<length (data a). data a ! j \<le> data a ! d) \<and>
     (\<forall>j<d. data a ! j < data a ! d)"
proof -
  from assms obtain x xs where a: "data a = x # xs" and d: "d = argmax_from xs 1 x 0"
    by (auto simp: argmax_def split: list.splits)
  from argmax_from_first_max [of 0 "[x]" x xs] show ?thesis
    unfolding a d by simp
qed

section \<open>Printing a table\<close>

text \<open>
  C10. For every table and metric name, \<open>print_metric\<close> returns after printing exactly one
  line per entry, in the order of the entries, each of the form
  \<^verbatim>\<open><metric_name> for <key>: <value>\<close>; nothing else of the world changes, in
  particular no key or value of any table.
\<close>

theorem print_metric_lines:
  "print_metric (std F) metric_dict metric_name w =
     (Inr PNone,
      w\<lparr>console := console w @
           map (\<lambda>(k, v). metric_name @ '' for '' @ k @ '': '' @ py_str (frepr F) v)
             metric_dict\<rparr>)"
  by (rule print_metric_std)

theorem print_metric_lines_witness:
  "print_metric (std demo) [(''baseline h5'', PInt 98968), (''acc'', PFloat NaN)] ''size''
     (fresh [] :: nat nb) =
   (Inr PNone,
    (fresh [])\<lparr>console := [''size for baseline h5: 98968'', ''size for acc: nan'']\<rparr>)"
proof -
  have s: "str_int 98968 = ''98968''"
    by (simp add: str_int_def str_nat.simps digit_char_def)
  show ?thesis
    using print_metric_lines [of demo "[(''baseline h5'', PInt 98968), (''acc'', PFloat NaN)]"
        "''size''" "fresh [] :: nat nb"]
    by (simp add: py_str_def s fresh_def)
qed

section \<open>Normalizing the pixels\<close>

lemma normalize_unit_interval:
  assumes "mono rnd" "rnd 0 = 0" "rnd 1 = 1"
    and "a \<in> set (normalize rnd images)" "x \<in> set (data a)"
  shows "0 \<le> x \<and> x \<le> 1"
proof -
  from assms(4,5) obtain p :: byte where x: "x = rnd (real (unat p) / 255)"
    by (auto simp: normalize_def true_divide_def)
  have "unat p < 256"
    using unsigned_less [of p] by simp
  then have lo: "0 \<le> real (unat p) / 255" and hi: "real (unat p) / 255 \<le> 1"
    by linarith+
  have "rnd 0 \<le> rnd (real (unat p) / 255)"
    by (rule monoD [OF assms(1) lo])
  moreover have "rnd (real (unat p) / 255) \<le> rnd 1"
    by (rule monoD [OF assms(1) hi])
  ultimately show ?thesis
    unfolding x assms(2,3) by (rule conjI)
qed

text \<open>
  C4. Cell 4 divides every 8-bit pixel by 255.0. Whenever the rounding of the quotient to
  float64 is monotone and leaves 0 and 1 alone (as rounding to nearest does), every pixel
  of every train and test image of the data set the cell produces lies in \<open>[0, 1]\<close>.
\<close>

theorem cell_4_pixels_in_unit_interval:
  assumes "mono (f64 F)" "f64 F 0 = 0" "f64 F 1 = 1"
    and "fst (cell_4 F w) = Inr ds"
  shows "\<forall>a \<in> set (train_images ds) \<union> set (test_images ds). \<forall>x \<in> set (data a). 0 \<le> x \<and> x \<le> 1"
proof -
  from assms(4) obtain tr trl te tel where
    ds: "ds = \<lparr>train_images = normalize (f64 F) tr, train_labels = trl,
               test_images = normalize (f64 F) te, test_labels = tel\<rparr>"
    by (auto simp: cell_4_def load_data_def bindM_def split: sum.splits prod.splits)
  show ?thesis
    using normalize_unit_interval [OF assms(1-3)] by (auto simp: ds)
qed

theorem cell_4_pixels_in_unit_interval_witness:
  "fst (cell_4 demo (fresh [] :: nat nb)) = Inr demo_ds \<and>
   list_all (\<lambda>a. list_all (\<lambda>x. 0 \<le> x \<and> x \<le> 1) (data a))
     (train_images demo_ds @ test_images demo_ds)"
proof -
  have run: "fst (cell_4 demo (fresh [] :: nat nb)) = Inr demo_ds"
    by (simp add: cell_4_def load_data_def bindM_def demo_def demo_ds_def demo_pixels_def
        demo_image_def normalize_def true_divide_def)
  have "mono (f64 demo)" "f64 demo 0 = 0" "f64 demo 1 = 1"
    by (simp_all add: demo_def mono_def)
  from cell_4_pixels_in_unit_interval [OF this run] show ?thesis
    using run by (simp add: list_all_iff)
qed

section \<open>Measuring the accuracy of a converted model\<close>



section \<open>Converting a model\<close>




section \<open>The compressed size of a file\<close>

text \<open>
  C9. Let the input file exist and let \<^verbatim>\<open>mkstemp\<close> find the unused name \<open>p\<close>. Then
  \<open>get_gzipped_model_size\<close> returns the size of a new file \<open>p\<close>, which is a ZIP archive
  written with DEFLATE whose only member is the input file; \<open>p\<close> is not the input file,
  every file that existed keeps its content and its place, and \<open>p\<close> is still there
  after the call, as is the descriptor that \<^verbatim>\<open>mkstemp\<close> opened.
\<close>

theorem get_gzipped_model_size_archive:
  assumes "map_of (fs w) file = Some bs"
    and "find (\<lambda>p. map_of (fs w) p = None)
           (map (\<lambda>c. tmp_dir F @ c @ ''.zip'') (tmp_candidates F)) = Some p"
  shows "get_gzipped_model_size (std F) file w =
           (Inr (length (zip_encode F ZIP_DEFLATED [(file, bs)])),
            w\<lparr>fs := fs w @ [(p, zip_encode F ZIP_DEFLATED [(file, bs)])],
              fds := fds w @ [p],
              zipfiles := zipfiles w @
                [\<lparr>zpath = p, zcomp = ZIP_DEFLATED, members = [(file, bs)], zopen = False\<rparr>],
              trace := trace w @ [EvCreate p, EvOpenW p, EvRead file, EvWrite p, EvGetsize p]\<rparr>)
         \<and> map_of (fs w) p = None \<and> p \<noteq> file"
proof -
  from find_Some_fresh [OF assms(2)] have fresh: "map_of (fs w) p = None"
    by simp
  with assms(1) have ne: "p \<noteq> file"
    by auto
  then have "map_of (AList.update p [] (fs w)) file = Some bs"
    using assms(1) by (simp add: update_conv')
  with assms(2) fresh ne show ?thesis
    by (simp add: get_gzipped_model_size_std update_fresh)
qed

theorem get_gzipped_model_size_archive_witness:
  "fst (get_gzipped_model_size (std demo) ''m.h5'' (fresh [(''m.h5'', [1, 2, 3])] :: nat nb)) =
     Inr 3 \<and>
   fs (snd (get_gzipped_model_size (std demo) ''m.h5'' (fresh [(''m.h5'', [1, 2, 3])] :: nat nb))) =
     [(''m.h5'', [1, 2, 3]), (''/tmp/a.zip'', [1, 2, 3])]"
proof -
  have "get_gzipped_model_size (std demo) ''m.h5'' (fresh [(''m.h5'', [1, 2, 3])] :: nat nb) =
      (Inr (length (zip_encode demo ZIP_DEFLATED [(''m.h5'', [1, 2, 3])])),
       (fresh [(''m.h5'', [1, 2, 3])])
         \<lparr>fs := fs (fresh [(''m.h5'', [1, 2, 3])] :: nat nb) @
              [(''/tmp/a.zip'', zip_encode demo ZIP_DEFLATED [(''m.h5'', [1, 2, 3])])],
          fds := fds (fresh [(''m.h5'', [1, 2, 3])] :: nat nb) @ [''/tmp/a.zip''],
          zipfiles := zipfiles (fresh [(''m.h5'', [1, 2, 3])] :: nat nb) @
            [\<lparr>zpath = ''/tmp/a.zip'', zcomp = ZIP_DEFLATED, members = [(''m.h5'', [1, 2, 3])],
               zopen = False\<rparr>],
          trace := trace (fresh [(''m.h5'', [1, 2, 3])] :: nat nb) @
            [EvCreate ''/tmp/a.zip'', EvOpenW ''/tmp/a.zip'', EvRead ''m.h5'',
             EvWrite ''/tmp/a.zip'', EvGetsize ''/tmp/a.zip'']\<rparr>)
      \<and> map_of (fs (fresh [(''m.h5'', [1, 2, 3])] :: nat nb)) ''/tmp/a.zip'' = None
      \<and> ''/tmp/a.zip'' \<noteq> ''m.h5''"
    by (rule get_gzipped_model_size_archive) (simp_all add: fresh_def demo_def)
  then show ?thesis
    by (simp add: fresh_def demo_def)
qed

section \<open>Exceptions of the library calls\<close>

lemma raises_append [simp]: "raises (a @ b) = raises a @ raises b"
  by (induction a rule: raises.induct) simp_all


lemma instrument_simps [simp]:
  "print (instrument E) = (\<lambda>s. logged ''print'' (print E s))"
  "mkstemp (instrument E) = (\<lambda>s. logged ''mkstemp'' (mkstemp E s))"
  "ZipFile_w (instrument E) = (\<lambda>p c. logged ''ZipFile'' (ZipFile_w E p c))"
  "zip_write (instrument E) = (\<lambda>z p. logged ''ZipFile.write'' (zip_write E z p))"
  "zip_exit (instrument E) = (\<lambda>z. logged ''ZipFile.__exit__'' (zip_exit E z))"
  "getsize (instrument E) = (\<lambda>p. logged ''getsize'' (getsize E p))"
  "layer (instrument E) = (\<lambda>s. logged ''layer'' (layer E s))"
  "Sequential (instrument E) = (\<lambda>ls. logged ''Sequential'' (Sequential E ls))"
  "Interpreter (instrument E) = (\<lambda>p. logged ''Interpreter'' (Interpreter E p))"
  "allocate_tensors (instrument E) = (\<lambda>i. logged ''allocate_tensors'' (allocate_tensors E i))"
  "get_input_details (instrument E) = (\<lambda>i. logged ''get_input_details'' (get_input_details E i))"
  "get_output_details (instrument E) =
     (\<lambda>i. logged ''get_output_details'' (get_output_details E i))"
  "set_tensor (instrument E) = (\<lambda>i k t. logged ''set_tensor'' (set_tensor E i k t))"
  "invoke (instrument E) = (\<lambda>i. logged ''invoke'' (invoke E i))"
  "tensor_read (instrument E) = (\<lambda>i k. logged ''tensor'' (tensor_read E i k))"
  "from_keras_model (instrument E) = (\<lambda>m. logged ''from_keras_model'' (from_keras_model E m))"
  "convert (instrument E) = (\<lambda>c. logged ''convert'' (convert E c))"
  "open_wb (instrument E) = (\<lambda>p. logged ''open'' (open_wb E p))"
  "file_write (instrument E) = (\<lambda>f bs. logged ''file.write'' (file_write E f bs))"
  "file_exit (instrument E) = (\<lambda>f. logged ''file.__exit__'' (file_exit E f))"
  "float32 (instrument E) = float32 E"
  "float_repr (instrument E) = float_repr E"
  by (simp_all add: instrument_def)


















lemma failing_simps [simp]:
  "mkstemp failing = (\<lambda>s. returnM (3, ''/tmp/a.zip''))"
  "ZipFile_w failing = (\<lambda>p c. returnM 0)"
  "zip_write failing = (\<lambda>z p. raiseM FileNotFoundError)"
  "zip_exit failing = (\<lambda>z. raiseM OSError)"
  "getsize failing = (\<lambda>p. returnM 0)"
  "layer failing = (\<lambda>s. returnM 0)"
  "Sequential failing = (\<lambda>ls. raiseM ValueError)"
  by (simp_all add: failing_def)





section \<open>What a completed cell leaves behind\<close>


lemma table_ops [simp]:
  "new_MODEL_SIZE w = (Inr (), w\<lparr>MODEL_SIZE := []\<rparr>)"
  "new_ACCURACY w = (Inr (), w\<lparr>ACCURACY := []\<rparr>)"
  "setitem_MODEL_SIZE k v w = (Inr (), w\<lparr>MODEL_SIZE := AList.update k v (MODEL_SIZE w)\<rparr>)"
  "setitem_ACCURACY k v w = (Inr (), w\<lparr>ACCURACY := AList.update k v (ACCURACY w)\<rparr>)"
  "print_MODEL_SIZE F n w =
     (Inr PNone, w\<lparr>console := console w @ metric_lines F n (MODEL_SIZE w)\<rparr>)"
  "print_ACCURACY F n w =
     (Inr PNone, w\<lparr>console := console w @ metric_lines F n (ACCURACY w)\<rparr>)"
  by (simp_all add: new_MODEL_SIZE_def new_ACCURACY_def setitem_MODEL_SIZE_def
      setitem_ACCURACY_def print_MODEL_SIZE_def print_ACCURACY_def print_metric_std
      metric_lines_def metric_line_def split_beta)
















lemma assigned_update [simp]: "assigned k d (AList.update k v d)"
  unfolding assigned_def by blast



























section \<open>A completed run of the notebook\<close>











section \<open>The two tables\<close>




section \<open>The files of a run\<close>




section \<open>The order of the effects\<close>





end
